theory Spec2Isabelle
  imports Main "HOL-Library.AList"
begin

section \<open>The record store of src/ezpzdb/db/db.js\<close>

text \<open>
  The embedding follows \<^verbatim>\<open>class Database\<close> method by method. A JavaScript number is
  modelled by an integer (the numbers handed to the methods are integers); where the
  source increments a number the result is rounded as the number type rounds it
  (\<open>js_round\<close>). An argument that may be \<^verbatim>\<open>undefined\<close> is an \<open>option\<close>, \<open>None\<close> standing
  for \<^verbatim>\<open>undefined\<close>. Every \<^verbatim>\<open>throw\<close> of the source, and every exception of the runtime
  the methods can run into, is a value of \<open>error\<close>.
\<close>

datatype error =
    InvalidId        \<comment> \<open>\<^verbatim>\<open>Error('id must exist and be at least 1')\<close>\<close>
  | MemoryPressure   \<comment> \<open>\<^verbatim>\<open>Error('Less than ... MiB system memory available ...')\<close>\<close>
  | TypeError        \<comment> \<open>a property read on \<^verbatim>\<open>undefined\<close> or \<^verbatim>\<open>null\<close>, a property set on a number\<close>
  | IOError          \<comment> \<open>\<^verbatim>\<open>fs.openSync\<close> or \<^verbatim>\<open>fs.readdirSync\<close> on a path that does not exist\<close>

text \<open>
  A stored record: the store only ever looks at its \<^verbatim>\<open>id\<close> property; the other
  properties are the \<open>body\<close>. The store keeps the object the caller hands over, not a
  copy: \<open>oid\<close> names the object, and two items with the same \<open>oid\<close> are one object. When
  a method is handed an object, every place that already holds this object is brought
  to the object's present content (\<open>sync\<close> below), and sees what the method then assigns
  to it. What a caller assigns to an object between two calls is seen by the model
  when a method next stores the object or assigns to it; a call that throws before
  that leaves the state of the model as it was.

  The objects handed to the methods have an integer \<^verbatim>\<open>id\<close> or none. In one place the
  code itself assigns NaN to an \<^verbatim>\<open>id\<close> (\<^verbatim>\<open>insert\<close>, when \<^verbatim>\<open>tbl\<close> is an object that is no
  table). On a record the store holds, NaN is \<open>None\<close> as well: the methods compare the
  \<^verbatim>\<open>id\<close> of a stored record by \<^verbatim>\<open>===\<close> with an id that has passed their check, and by
  \<^verbatim>\<open>>\<close> with a number, and both are false for NaN as they are for \<^verbatim>\<open>undefined\<close>.
\<close>

record 'a item =
  oid :: nat
  item_id :: "int option"
  body :: 'a

text \<open>
  What \<^verbatim>\<open>get\<close> can hand back, and what \<^verbatim>\<open>msgpack.unpack\<close> can produce: \<^verbatim>\<open>undefined\<close>,
  \<^verbatim>\<open>null\<close>, a primitive (number, string, boolean: a value whose \<^verbatim>\<open>id\<close> property is
  \<^verbatim>\<open>undefined\<close>) or a record.
\<close>

datatype 'a jsv = Undefined | Null | Prim | Item "'a item"

text \<open>\<^verbatim>\<open>v.id\<close>: a TypeError on \<^verbatim>\<open>undefined\<close> and \<^verbatim>\<open>null\<close>.\<close>

fun prop_id :: "'a jsv \<Rightarrow> error + int option" where
  "prop_id Undefined = Inl TypeError"
| "prop_id Null = Inl TypeError"
| "prop_id Prim = Inr None"
| "prop_id (Item r) = Inr (item_id r)"

text \<open>
  \<^verbatim>\<open>n.id\<close> for a number \<open>n\<close>: numbers have no such property, the read gives
  \<^verbatim>\<open>undefined\<close>.
\<close>

definition number_id :: "int \<Rightarrow> int option" where
  "number_id n = None"

text \<open>
  \<^verbatim>\<open>a > b\<close> on values that are numbers or \<^verbatim>\<open>undefined\<close>: \<^verbatim>\<open>undefined\<close> converts to NaN
  and every comparison with NaN is false.
\<close>

fun js_gt :: "int option \<Rightarrow> int option \<Rightarrow> bool" where
  "js_gt (Some a) (Some b) = (a > b)"
| "js_gt _ _ = False"

text \<open>\<^verbatim>\<open>Array.prototype.findIndex\<close>: the first index whose element passes, or -1.\<close>

fun findIndex :: "('a \<Rightarrow> bool) \<Rightarrow> 'a list \<Rightarrow> int" where
  "findIndex p [] = - 1"
| "findIndex p (x # xs) =
     (if p x then 0 else (let k = findIndex p xs in if k < 0 then - 1 else k + 1))"

text \<open>\<^verbatim>\<open>xs.splice(k, 1)\<close>: the element at index \<open>k\<close> is taken out.\<close>

definition splice1 :: "nat \<Rightarrow> 'a list \<Rightarrow> 'a list" where
  "splice1 k xs = take k xs @ drop (Suc k) xs"

subsection \<open>Arithmetic on numbers\<close>

text \<open>
  A number is a binary floating-point value with 53 significant bits. Every integer of
  absolute value up to \<open>2^53 = 9007199254740992\<close> is a number; a larger one is a number
  only if it is a multiple of the unit of its binade, and the result of an addition is
  the nearest number, the one with the even significand on a tie. \<open>ulp53 1 a\<close> is that
  unit for \<open>a \<ge> 0\<close>: the least power of two \<open>u\<close> with \<open>a div u < 2^53\<close>. The largest number,
  near \<open>1.8 * 10^308\<close>, is not modelled: adding 1 never leads beyond it.
\<close>

function ulp53 :: "int \<Rightarrow> int \<Rightarrow> int" where
  "ulp53 u a = (if u \<le> 0 \<or> a div u < 9007199254740992 then u else ulp53 (2 * u) a)"
  by pat_completeness auto
termination
proof (relation "measure (\<lambda>(u, a). nat (a - u + 1))")
  show "wf (measure (\<lambda>(u, a). nat (a - u + 1)))" by simp
next
  fix u a :: int
  assume "\<not> (u \<le> 0 \<or> a div u < 9007199254740992)"
  then have u: "0 < u" and d: "9007199254740992 \<le> a div u" by auto
  have "u * (a div u) + a mod u = a" by simp
  moreover have "0 \<le> a mod u" using u by simp
  ultimately have "u * (a div u) \<le> a" by linarith
  moreover from u d have "u * 9007199254740992 \<le> u * (a div u)" by (simp add: mult_left_mono)
  ultimately have "2 * u \<le> a" using u by linarith
  then show "((2 * u, a), (u, a)) \<in> measure (\<lambda>(u, a). nat (a - u + 1))"
    using u by simp
qed

declare ulp53.simps [simp del]

definition js_round :: "int \<Rightarrow> int" where
  "js_round m =
     (let a = \<bar>m\<bar>; u = ulp53 1 a; q = a div u; r = a mod u;
          q' = (if 2 * r < u then q else if u < 2 * r then q + 1
                else if even q then q else q + 1)
      in sgn m * (q' * u))"

text \<open>\<^verbatim>\<open>++x\<close> and \<^verbatim>\<open>x++\<close> leave \<open>x + 1\<close>, rounded, in \<open>x\<close>; \<open>js_succ\<close> is the same on a counter.\<close>

definition js_inc :: "int \<Rightarrow> int" where
  "js_inc n = js_round (n + 1)"

definition js_succ :: "nat \<Rightarrow> nat" where
  "js_succ w = nat (js_inc (int w))"

subsection \<open>Table state and database state\<close>

text \<open>
  The object \<^verbatim>\<open>createTable\<close> builds, plus \<^verbatim>\<open>beforeLastId\<close>, which \<^verbatim>\<open>insert\<close> adds. The
  field \<^verbatim>\<open>truncate\<close> is \<open>truncate_mark\<close> here. \<open>removals\<close> holds the ids \<^verbatim>\<open>remove\<close> pushed:
  plain numbers.
\<close>

record 'a table =
  lastId :: int
  beforeLastId :: "int option"
  items :: "'a item list"
  inserts :: "'a item list"
  updates :: "'a item list"
  removals :: "int list"
  truncate_mark :: int
  cache :: "'a item list"

text \<open>
  The handle kept in \<^verbatim>\<open>this.lastPersistDataTimeout\<close>: the delay the timer was armed
  with, and whether \<^verbatim>\<open>clearTimeout\<close> has cancelled it.
\<close>

record timer =
  delay :: nat
  cleared :: bool

text \<open>
  \<^verbatim>\<open>this.storage\<close> and \<^verbatim>\<open>this.lastPersistDataTimeout\<close>. \<open>tables\<close> is the object keyed by
  table name, in the order the tables were created. \<open>lastWrite\<close> is \<^verbatim>\<open>undefined\<close> until
  the first write. The assignment \<^verbatim>\<open>tables['__proto__'] = v\<close> does not give the object a
  property of that name, it makes \<open>v\<close> the prototype of \<^verbatim>\<open>tables\<close>, and
  \<^verbatim>\<open>tables['__proto__']\<close> reads the prototype: the entry of \<open>tables\<close> under the name
  \<^verbatim>\<open>__proto__\<close>, when there is one, is that prototype.
\<close>

record 'a database =
  tables :: "(string \<times> 'a table) list"
  exists :: bool
  writes :: nat
  lastWrite :: "int option"
  worthPersistingNow :: bool
  leastfree :: int
  lastPersistDataTimeout :: "timer option"

definition new_table :: "'a table" where
  "new_table = \<lparr> lastId = 0, beforeLastId = None, items = [], inserts = [], updates = [],
     removals = [], truncate_mark = - 1, cache = [] \<rparr>"

definition Database_createTable :: "string \<Rightarrow> 'a database \<Rightarrow> 'a database" where
  "Database_createTable table st = st\<lparr> tables := AList.update table new_table (tables st) \<rparr>"

text \<open>
  The state the constructor leaves when the directory holds no \<^verbatim>\<open>.stamp\<close> file. The
  memory floor is 6% of the total memory, at least 64 MiB and at most 1 GiB
  (\<^verbatim>\<open>Math.floor(os.totalmem() * 0.06)\<close>, here in integer arithmetic).
\<close>

definition memory_floor :: "int \<Rightarrow> int" where
  "memory_floor totalmem =
     min (1024 * 1024 * 1024) (max (64 * 1024 * 1024) (totalmem * 6 div 100))"

definition Database_new :: "int \<Rightarrow> 'a database" where
  "Database_new totalmem = \<lparr> tables = [], exists = False, writes = 0, lastWrite = None,
     worthPersistingNow = False, leastfree = memory_floor totalmem,
     lastPersistDataTimeout = None \<rparr>"

subsection \<open>Reading \<^verbatim>\<open>this.storage.tables[table]\<close>\<close>

text \<open>
  The read finds the table stored under the name and, when the object has no property
  of that name, whatever its prototype chain has: a property of the table that was made
  the prototype (a number, or an array), and behind it the members of
  \<^verbatim>\<open>Object.prototype\<close> (functions, and under \<^verbatim>\<open>__proto__\<close> the prototype itself).
  \<open>Table\<close> is a table object, \<open>Num\<close> a number, \<open>Obj\<close> any other object and \<open>Undef\<close> is
  \<^verbatim>\<open>undefined\<close>.
\<close>

datatype 'a tref = Table "'a table" | Num int | Obj | Undef

definition object_prototype_names :: "string list" where
  "object_prototype_names =
     [''constructor'', ''toString'', ''toLocaleString'', ''valueOf'', ''hasOwnProperty'',
      ''isPrototypeOf'', ''propertyIsEnumerable'', ''__proto__'', ''__defineGetter__'',
      ''__defineSetter__'', ''__lookupGetter__'', ''__lookupSetter__'']"

text \<open>\<^verbatim>\<open>p[name]\<close> for a table object \<open>p\<close>, as far as \<open>p\<close> has the property itself.\<close>

definition table_member :: "'a table \<Rightarrow> string \<Rightarrow> 'a tref" where
  "table_member p name =
     (if name = ''lastId'' then Num (lastId p)
      else if name = ''truncate'' then Num (truncate_mark p)
      else if name = ''beforeLastId''
        then (case beforeLastId p of None \<Rightarrow> Undef | Some b \<Rightarrow> Num b)
      else if name \<in> set [''items'', ''inserts'', ''updates'', ''removals'', ''cache'']
        then Obj
      else Undef)"

definition inherited_member :: "'a database \<Rightarrow> string \<Rightarrow> 'a tref" where
  "inherited_member st name =
     (case (case map_of (tables st) ''__proto__'' of
              None \<Rightarrow> Undef
            | Some p \<Rightarrow> table_member p name) of
        Undef \<Rightarrow> (if name \<in> set object_prototype_names then Obj else Undef)
      | m \<Rightarrow> m)"

definition tables_get :: "'a database \<Rightarrow> string \<Rightarrow> 'a tref" where
  "tables_get st name =
     (case map_of (tables st) name of
        Some tbl \<Rightarrow> Table tbl
      | None \<Rightarrow> inherited_member st name)"

text \<open>Whether \<^verbatim>\<open>if (v)\<close> passes.\<close>

fun truthy :: "'a tref \<Rightarrow> bool" where
  "truthy (Table tbl) = True"
| "truthy (Num n) = (n \<noteq> 0)"
| "truthy Obj = True"
| "truthy Undef = False"

subsection \<open>Objects held in several places\<close>

text \<open>
  \<open>sync obj st\<close>: every place of the store that holds the object \<open>obj\<close> shows the
  content \<open>obj\<close> has now.
\<close>

definition refresh :: "'a item \<Rightarrow> 'a item \<Rightarrow> 'a item" where
  "refresh obj x = (if oid x = oid obj then obj else x)"

definition sync_table :: "'a item \<Rightarrow> 'a table \<Rightarrow> 'a table" where
  "sync_table obj t =
     t\<lparr> items := map (refresh obj) (items t), inserts := map (refresh obj) (inserts t),
        updates := map (refresh obj) (updates t), cache := map (refresh obj) (cache t) \<rparr>"

definition sync :: "'a item \<Rightarrow> 'a database \<Rightarrow> 'a database" where
  "sync obj st = st\<lparr> tables := map (\<lambda>(n, t). (n, sync_table obj t)) (tables st) \<rparr>"

subsection \<open>The flush and its scheduler\<close>

text \<open>
  \<^verbatim>\<open>persistData\<close>, as far as it assigns to the state in memory. It marks the database as
  existing and enters its loop over the tables. The loop body reads \<^verbatim>\<open>table.truncate\<close>,
  and no variable \<^verbatim>\<open>table\<close> is bound there or anywhere around it (the loop variable is
  \<^verbatim>\<open>tableName\<close>): for the first table the body throws a ReferenceError, inside the
  promise, which is rejected. Nothing of the loop body is done for any table: no
  truncation, no sort of \<open>removals\<close>, no removal or update pass, no reset of \<open>writes\<close>.
  (The text of the branch for a positive truncate marker does not parse either.) With
  no table the loop has nothing to do. The rejected promise throws nothing into the
  caller, which goes on. (\<^verbatim>\<open>global.gc()\<close>, called before the loop, is taken to be there.)
\<close>

definition Database_persistData :: "'a database \<Rightarrow> 'a database" where
  "Database_persistData st = (if \<not> exists st then st\<lparr> exists := True \<rparr> else st)"

text \<open>
  \<^verbatim>\<open>lastWrite + d <= dateNow\<close>; with \<^verbatim>\<open>lastWrite\<close> undefined the sum is NaN and the
  comparison false.
\<close>

fun due_by :: "int option \<Rightarrow> int \<Rightarrow> int \<Rightarrow> bool" where
  "due_by None d dateNow = False"
| "due_by (Some lw) d dateNow = (lw + d \<le> dateNow)"

text \<open>
  \<^verbatim>\<open>asyncPersistData\<close>; \<open>dateNow\<close> is what \<^verbatim>\<open>Date.now()\<close> returns, in milliseconds. The
  first component of the result tells whether \<^verbatim>\<open>persistData\<close> was called. The call sits
  in an async function without \<^verbatim>\<open>await\<close>, and the body of a promise runs at once, so its
  assignments are done when \<^verbatim>\<open>asyncPersistData\<close> returns. \<^verbatim>\<open>1000 * 60 * writes / 100\<close>
  is exact: the product is a multiple of 100.
\<close>

definition Database_asyncPersistData :: "int \<Rightarrow> 'a database \<Rightarrow> bool \<times> 'a database" where
  "Database_asyncPersistData dateNow st =
     (let w = int (writes st);
          normalRunDue = (w \<ge> 100 \<and> due_by (lastWrite st) (1000 * 60 * w div 100) dateNow);
          longRunDue = (w \<ge> 1000 \<and> due_by (lastWrite st) 1000 dateNow);
          shortRunDue = (w < 100 \<and> due_by (lastWrite st) (1000 * 60 * 2) dateNow)
      in if normalRunDue \<or> longRunDue \<or> shortRunDue \<or> worthPersistingNow st
         then (True, (Database_persistData st)\<lparr> worthPersistingNow := False \<rparr>)
         else (False, st\<lparr> lastPersistDataTimeout :=
                 Some \<lparr> delay = (if w > 1000 then 1 else 60) * 1000, cleared = False \<rparr> \<rparr>))"

subsection \<open>The mutating operations\<close>

text \<open>
  Each operation takes the readings of the environment it makes (\<open>now\<close>: the
  \<^verbatim>\<open>Date.now()\<close> stored in \<open>lastWrite\<close>; \<open>dateNow\<close>: the one the scheduler reads;
  \<open>freemem\<close>: \<^verbatim>\<open>os.freemem()\<close>) and returns its outcome together with the state it
  leaves, also when it throws. \<^verbatim>\<open>update\<close>, \<^verbatim>\<open>remove\<close>, \<^verbatim>\<open>truncate\<close> and \<^verbatim>\<open>get\<close> read
  \<^verbatim>\<open>this.storage.tables[table].inserts\<close> (or \<^verbatim>\<open>.items\<close>, \<^verbatim>\<open>.updates\<close>) and call a method of
  it. Whenever \<^verbatim>\<open>tables\<close> holds no table under the name this is a TypeError: the read of
  the property throws on \<^verbatim>\<open>undefined\<close>, and on an inherited member (a number, an array,
  a function) it gives \<^verbatim>\<open>undefined\<close>, on which the method call throws.

  \<^verbatim>\<open>insert\<close> creates the table when \<^verbatim>\<open>this.storage.tables[table]\<close> is not truthy. What it
  then has in \<^verbatim>\<open>tbl\<close> is a table, or an inherited member that was truthy. On a number
  \<^verbatim>\<open>tbl.beforeLastId = ...\<close> is a TypeError (the file is in strict mode). On another
  object it is done, \<^verbatim>\<open>++tbl.lastId\<close> is NaN and is assigned to \<^verbatim>\<open>data.id\<close>, and
  \<^verbatim>\<open>tbl.inserts.push\<close> is a TypeError. On a table, \<^verbatim>\<open>data.id = ++tbl.lastId\<close> assigns to the
  caller's object, which the store may hold already. \<^verbatim>\<open>insert\<close> ends with
  \<^verbatim>\<open>return tbl.lastId\<close>, read from the table after the scheduler call. The calls of
  \<^verbatim>\<open>global.gc()\<close> are taken to be there (node run with \<^verbatim>\<open>--expose-gc\<close>) and to change
  nothing the methods read.
\<close>

definition Database_insert ::
  "int \<Rightarrow> int \<Rightarrow> int \<Rightarrow> 'a database \<Rightarrow> string \<Rightarrow> 'a item \<Rightarrow> (error + int) \<times> 'a database" where
  "Database_insert freemem now dateNow st table data =
     (if js_succ (writes st) mod 250000 = 0 \<and> freemem < leastfree st
      then (Inl MemoryPressure,
            st\<lparr> lastPersistDataTimeout :=
                  map_option (\<lambda>t. t\<lparr> cleared := True \<rparr>) (lastPersistDataTimeout st) \<rparr>)
      else
        let st0 = (if \<not> truthy (tables_get st table) then Database_createTable table st
                   else st)
        in case tables_get st0 table of
             Undef \<Rightarrow> (Inl TypeError, st0)
           | Num n \<Rightarrow> (Inl TypeError, st0)
           | Obj \<Rightarrow> (Inl TypeError, sync (data\<lparr> item_id := None \<rparr>) st0)
           | Table tbl0 \<Rightarrow>
               let data' = data\<lparr> item_id := Some (js_inc (lastId tbl0)) \<rparr>;
                   st1 = sync data' st0;
                   tbl = sync_table data' tbl0;
                   tbl' = tbl\<lparr> beforeLastId := Some (lastId tbl),
                               lastId := js_inc (lastId tbl),
                               inserts := inserts tbl @ [data'] \<rparr>;
                   st2 = st1\<lparr> tables := AList.update table tbl' (tables st1),
                             lastWrite := Some now,
                             writes := js_succ (writes st1) \<rparr>;
                   st3 = snd (Database_asyncPersistData dateNow st2)
               in (case map_of (tables st3) table of
                     None \<Rightarrow> (Inl TypeError, st3)
                   | Some t \<Rightarrow> (Inr (lastId t), st3)))"

definition Database_remove ::
  "int \<Rightarrow> int \<Rightarrow> 'a database \<Rightarrow> string \<Rightarrow> int option \<Rightarrow> (error + bool) \<times> 'a database" where
  "Database_remove now dateNow st table id' =
     (case id' of
        None \<Rightarrow> (Inl InvalidId, st)
      | Some i \<Rightarrow>
          if i = 0 then (Inl InvalidId, st)
          else (case map_of (tables st) table of
                  None \<Rightarrow> (Inl TypeError, st)
                | Some tbl \<Rightarrow>
                    let insertIndex = findIndex (\<lambda>item. item_id item = Some i) (inserts tbl);
                        tbl' = (if insertIndex \<noteq> - 1
                                then tbl\<lparr> inserts := splice1 (nat insertIndex) (inserts tbl) \<rparr>
                                else tbl\<lparr> removals := removals tbl @ [i] \<rparr>);
                        st1 = st\<lparr> tables := AList.update table tbl' (tables st),
                                  lastWrite := Some now,
                                  writes := js_succ (writes st) \<rparr>
                    in (Inr True, snd (Database_asyncPersistData dateNow st1))))"

text \<open>
  \<^verbatim>\<open>truncate(table, start = 0)\<close>: an omitted \<open>start\<close> is 0. \<^verbatim>\<open>item.id > start\<close> is false
  for an item without id.
\<close>

definition Database_truncate ::
  "int \<Rightarrow> int \<Rightarrow> 'a database \<Rightarrow> string \<Rightarrow> int option \<Rightarrow> (error + int) \<times> 'a database" where
  "Database_truncate now dateNow st table start' =
     (let start = (case start' of None \<Rightarrow> 0 | Some s \<Rightarrow> s)
      in case map_of (tables st) table of
           None \<Rightarrow> (Inl TypeError, st)
         | Some tbl \<Rightarrow>
             let index = findIndex (\<lambda>item. js_gt (item_id item) (Some start)) (items tbl);
                 tbl' = tbl\<lparr> lastId := start, truncate_mark := start \<rparr>;
                 st1 = st\<lparr> tables := AList.update table tbl' (tables st),
                           lastWrite := Some now,
                           writes := js_succ (writes st),
                           worthPersistingNow := True \<rparr>
             in (Inr index, snd (Database_asyncPersistData dateNow st1)))"

subsection \<open>Files, and what the read path sees of them\<close>

text \<open>
  A line of an index file, as the code reads it: \<^verbatim>\<open>parseInt\<close> of the text before the
  first comma (\<open>num1\<close>: the byte length, or \<open>lastId\<close> on the first line) and \<^verbatim>\<open>parseInt\<close>
  of the text after it (\<open>num2\<close>: the id; NaN, here \<open>None\<close>, on a line without comma such
  as the first). Lines are taken to start with digits. A table directory holds the
  index file (its lines, or \<open>None\<close> when the file does not exist) and possibly the data
  file \<^verbatim>\<open>db\<close>; the data file's bytes are never read by the code below, so only its
  existence is kept. \<open>tabledirs\<close> is \<open>None\<close> when \<^verbatim>\<open><dir>/tables\<close> does not exist.
\<close>

record idx_line =
  num1 :: nat
  num2 :: "int option"

record table_files =
  indexfile :: "idx_line list option"
  tablefile :: bool

record filesys =
  stamp :: bool
  tabledirs :: "(string \<times> table_files) list option"

definition index_lines :: "filesys \<Rightarrow> string \<Rightarrow> idx_line list option" where
  "index_lines fs table =
     (case tabledirs fs of
        None \<Rightarrow> None
      | Some ds \<Rightarrow> (case map_of ds table of None \<Rightarrow> None | Some tf \<Rightarrow> indexfile tf))"

definition tablefile_exists :: "filesys \<Rightarrow> string \<Rightarrow> bool" where
  "tablefile_exists fs table =
     (case tabledirs fs of
        None \<Rightarrow> False
      | Some ds \<Rightarrow> (case map_of ds table of None \<Rightarrow> False | Some tf \<Rightarrow> tablefile tf))"

text \<open>
  The library calls of the scan, taken as parameters: the buffers \<^verbatim>\<open>new Buffer(n)\<close> and
  \<^verbatim>\<open>Buffer.allocUnsafe(n)\<close> hand out (their bytes), and \<^verbatim>\<open>msgpack.unpack\<close>.
\<close>

record 'a ext =
  new_Buffer :: "nat \<Rightarrow> nat list"
  allocUnsafe :: "nat \<Rightarrow> nat list"
  unpack :: "nat list \<Rightarrow> 'a jsv"

text \<open>
  The loop of \<^verbatim>\<open>get\<close> over the index lines after the first. \<^verbatim>\<open>liner.next()\<close> is
  \<^verbatim>\<open>false\<close> at the end of the file, \<^verbatim>\<open>parseInt('false')\<close> is NaN and the loop ends; a
  length of 0 ends it too. The loop never reads the data file: \<^verbatim>\<open>item\<close> is unpacked
  from the buffer as allocated. \<open>item\<close> is the variable's value on entry.
\<close>

fun scan :: "'a ext \<Rightarrow> int option \<Rightarrow> nat list \<Rightarrow> idx_line list \<Rightarrow> 'a jsv \<Rightarrow> error + 'a jsv" where
  "scan ext id' buf [] item = Inr item"
| "scan ext id' buf (next # rest) item =
     (if num1 next = 0 then Inr item
      else
        let buf' = (if length buf > num1 next then buf[num1 next := 0]
                    else if length buf < num1 next then allocUnsafe ext (num1 next)
                    else buf);
            item' = unpack ext buf'
        in (case prop_id item' of
              Inl e \<Rightarrow> Inl e
            | Inr i \<Rightarrow> if i = id' then Inr item' else scan ext id' buf' rest Null))"

text \<open>Whether \<^verbatim>\<open>if (xs.find(...))\<close> passes, for a list of numbers.\<close>

fun truthy_number :: "int option \<Rightarrow> bool" where
  "truthy_number None = False"
| "truthy_number (Some n) = (n \<noteq> 0)"

text \<open>
  \<^verbatim>\<open>get\<close>. The statement \<^verbatim>\<open>return item\<close> stands inside the second \<^verbatim>\<open>if (!item)\<close>
  block: when the item was found in \<open>updates\<close> or \<open>inserts\<close> the function runs off its
  end and the result is \<^verbatim>\<open>undefined\<close>.
\<close>

definition Database_get ::
  "'a ext \<Rightarrow> filesys \<Rightarrow> 'a database \<Rightarrow> string \<Rightarrow> int option \<Rightarrow> error + 'a jsv" where
  "Database_get ext fs st table id' =
     (if id' = None \<or> id' = Some 0 then Inl InvalidId
      else case map_of (tables st) table of
        None \<Rightarrow> Inl TypeError
      | Some tbl \<Rightarrow>
          let item = find (\<lambda>item. item_id item = id') (updates tbl);
              item = (if item = None then find (\<lambda>item. item_id item = id') (inserts tbl)
                      else item)
          in if item = None
             then
               if truthy_number (find (\<lambda>item. number_id item = id') (removals tbl))
               then Inr Null
               else (case find (\<lambda>item. item_id item = id') (cache tbl) of
                       Some r \<Rightarrow> Inr (Item r)
                     | None \<Rightarrow>
                         (case index_lines fs table of
                            None \<Rightarrow> Inl IOError
                          | Some ls \<Rightarrow>
                              if \<not> tablefile_exists fs table then Inl IOError
                              else scan ext id' (new_Buffer ext 1024) (drop 1 ls) Undefined))
             else Inr Undefined)"

text \<open>
  \<^verbatim>\<open>update\<close>. The object handed over may be one the store holds already; the search
  through \<open>inserts\<close> reads its present \<^verbatim>\<open>id\<close>.
\<close>

definition Database_update ::
  "'a ext \<Rightarrow> filesys \<Rightarrow> int \<Rightarrow> int \<Rightarrow> 'a database \<Rightarrow> string \<Rightarrow> 'a item
     \<Rightarrow> (error + 'a jsv) \<times> 'a database" where
  "Database_update ext fs now dateNow st table data =
     (if item_id data = None \<or> item_id data = Some 0 then (Inl InvalidId, st)
      else case map_of (tables st) table of
        None \<Rightarrow> (Inl TypeError, st)
      | Some tbl0 \<Rightarrow>
          let st0 = sync data st;
              tbl = sync_table data tbl0;
              insertIndex = findIndex (\<lambda>item. item_id item = item_id data) (inserts tbl);
              tbl' = (if insertIndex \<noteq> - 1
                      then tbl\<lparr> inserts := (inserts tbl)[nat insertIndex := data] \<rparr>
                      else tbl\<lparr> updates := updates tbl @ [data] \<rparr>);
              st1 = st0\<lparr> tables := AList.update table tbl' (tables st0),
                         lastWrite := Some now,
                         writes := js_succ (writes st0) \<rparr>;
              st2 = snd (Database_asyncPersistData dateNow st1)
          in (Database_get ext fs st2 table (item_id data), st2))"

subsection \<open>Startup\<close>

text \<open>
  The loop of \<^verbatim>\<open>initialize\<close> over the names \<^verbatim>\<open>readdirSync\<close> lists: the table is created,
  the index file opened (\<^verbatim>\<open>new readlines(path)\<close> throws when it does not exist) and its
  first line read: \<^verbatim>\<open>let lastId = 0; if (next) lastId = parseInt(next)\<close>.
\<close>

fun recover_tables :: "(string \<times> table_files) list \<Rightarrow> 'a database \<Rightarrow> error + 'a database" where
  "recover_tables [] st = Inr st"
| "recover_tables ((tableName, files) # rest) st =
     (let st1 = Database_createTable tableName st
      in case indexfile files of
           None \<Rightarrow> Inl IOError
         | Some ls \<Rightarrow>
             let lastId' = (case ls of [] \<Rightarrow> 0 | next # _ \<Rightarrow> int (num1 next))
             in recover_tables rest
                  (st1\<lparr> tables :=
                         AList.map_entry tableName (\<lambda>t. t\<lparr> lastId := lastId' \<rparr>) (tables st1) \<rparr>))"

definition Database_initialize :: "int \<Rightarrow> filesys \<Rightarrow> error + 'a database" where
  "Database_initialize totalmem fs =
     (let st = Database_new totalmem
      in if stamp fs
         then (case tabledirs fs of
                 None \<Rightarrow> Inl IOError
               | Some ds \<Rightarrow> recover_tables ds (st\<lparr> exists := True \<rparr>))
         else Inr st)"

text \<open>
  \<^verbatim>\<open>initialize\<close> is a method like the others and can be called on a database that is
  open: it sets the memory floor and \<open>exists\<close> anew and creates every table the
  directory lists, over the table of that name in memory. This is the same code, on the
  state \<open>st\<close> and with the state kept when the method throws.
\<close>

fun initialize_tables ::
  "(string \<times> table_files) list \<Rightarrow> 'a database \<Rightarrow> error option \<times> 'a database" where
  "initialize_tables [] st = (None, st)"
| "initialize_tables ((tableName, files) # rest) st =
     (let st1 = Database_createTable tableName st
      in case indexfile files of
           None \<Rightarrow> (Some IOError, st1)
         | Some ls \<Rightarrow>
             let lastId' = (case ls of [] \<Rightarrow> 0 | next # _ \<Rightarrow> int (num1 next))
             in initialize_tables rest
                  (st1\<lparr> tables :=
                         AList.map_entry tableName (\<lambda>t. t\<lparr> lastId := lastId' \<rparr>) (tables st1) \<rparr>))"

definition Database_initialize_on ::
  "int \<Rightarrow> filesys \<Rightarrow> 'a database \<Rightarrow> error option \<times> 'a database" where
  "Database_initialize_on totalmem fs st =
     (let st1 = st\<lparr> leastfree := memory_floor totalmem, exists := stamp fs \<rparr>
      in if stamp fs
         then (case tabledirs fs of
                 None \<Rightarrow> (Some IOError, st1)
               | Some ds \<Rightarrow> initialize_tables ds st1)
         else (None, st1))"

section \<open>The row container of src/ezpzdb/db/effset.js\<close>

text \<open>
  A record handed to the container is the list of its properties in the order
  \<^verbatim>\<open>for (let key in elem)\<close> visits them, each name once; a property's value is \<open>None\<close>
  when it is \<^verbatim>\<open>undefined\<close>. An entry is a JavaScript array with holes: reading a hole or
  reading past the end gives \<^verbatim>\<open>undefined\<close>, again \<open>None\<close>. \<open>entries\<close> holds one entry per
  index, or \<open>None\<close> where the slot is \<^verbatim>\<open>null\<close> or a hole. The field \<^verbatim>\<open>fields\<close> is
  \<open>fields_dir\<close> here.
\<close>

record 'v effset =
  fields_dir :: "string list"
  entries :: "'v option list option list"

definition EffSet_new :: "'v effset" where
  "EffSet_new = \<lparr> fields_dir = [], entries = [] \<rparr>"

text \<open>The decimal numeral of a number, as JavaScript prints an array index.\<close>

fun show_nat :: "nat \<Rightarrow> string" where
  "show_nat n =
     (if n < 10 then [''0123456789'' ! n]
      else show_nat (n div 10) @ [''0123456789'' ! (n mod 10)])"

declare show_nat.simps [simp del]

text \<open>
  The property names every array inherits from \<^verbatim>\<open>Array.prototype\<close> and
  \<^verbatim>\<open>Object.prototype\<close> (ECMAScript 2015; later editions add more).
\<close>

definition array_prototype_names :: "string list" where
  "array_prototype_names =
     [''constructor'', ''concat'', ''copyWithin'', ''fill'', ''find'', ''findIndex'',
      ''lastIndexOf'', ''pop'', ''push'', ''reverse'', ''shift'', ''unshift'', ''slice'',
      ''sort'', ''splice'', ''includes'', ''indexOf'', ''join'', ''keys'', ''entries'',
      ''values'', ''forEach'', ''filter'', ''map'', ''every'', ''some'', ''reduce'',
      ''reduceRight'', ''toLocaleString'', ''toString'', ''hasOwnProperty'',
      ''isPrototypeOf'', ''propertyIsEnumerable'', ''valueOf'', ''__proto__'',
      ''__defineGetter__'', ''__defineSetter__'', ''__lookupGetter__'',
      ''__lookupSetter__'']"

text \<open>
  \<^verbatim>\<open>key in xs\<close> for an array \<open>xs\<close>: the operator asks whether \<open>key\<close> names a property
  of the array, that is an index below its length, \<^verbatim>\<open>length\<close>, or an inherited name.
  It does not ask whether \<open>key\<close> is an element.
\<close>

definition key_in_array :: "string \<Rightarrow> 'a list \<Rightarrow> bool" where
  "key_in_array key xs =
     (key \<in> set (map show_nat [0..<length xs]) \<or> key = ''length''
        \<or> key \<in> set array_prototype_names)"

text \<open>\<^verbatim>\<open>xs.indexOf(x)\<close>: the first index of \<open>x\<close>, or -1.\<close>

definition indexOf :: "'a list \<Rightarrow> 'a \<Rightarrow> int" where
  "indexOf xs x = findIndex (\<lambda>y. y = x) xs"

text \<open>
  \<^verbatim>\<open>arr[i] = v\<close>: an index past the end extends the array with holes; the index -1 sets
  a property that is no element, and the elements stay as they are.
\<close>

definition array_set :: "'a option list \<Rightarrow> int \<Rightarrow> 'a option \<Rightarrow> 'a option list" where
  "array_set arr i v =
     (if i < 0 then arr
      else if nat i < length arr then arr[nat i := v]
      else arr @ replicate (nat i - length arr) None @ [v])"

text \<open>\<^verbatim>\<open>arr[i]\<close>, read.\<close>

definition array_get :: "'a option list \<Rightarrow> nat \<Rightarrow> 'a option" where
  "array_get arr i = (if i < length arr then arr ! i else None)"

text \<open>The body of the loop of \<^verbatim>\<open>push\<close>, on the directory and the entry being filled.\<close>

definition push_key ::
  "string \<times> 'v option \<Rightarrow> string list \<times> 'v option list \<Rightarrow> string list \<times> 'v option list" where
  "push_key kv s =
     (let fs' = (if \<not> key_in_array (fst kv) (fst s) then fst s @ [fst kv] else fst s)
      in (fs', array_set (snd s) (indexOf fs' (fst kv)) (snd kv)))"

definition EffSet_push :: "'v effset \<Rightarrow> (string \<times> 'v option) list \<Rightarrow> 'v effset" where
  "EffSet_push es elem =
     (let entry = replicate (length (fields_dir es)) None;
          s = fold push_key elem (fields_dir es, entry)
      in es\<lparr> fields_dir := fst s, entries := entries es @ [Some (snd s)] \<rparr>)"

text \<open>
  \<^verbatim>\<open>get\<close>: \<open>None\<close> is \<^verbatim>\<open>undefined\<close>. \<^verbatim>\<open>obj[name] = v\<close> replaces the value of a property
  the object has and adds the property otherwise.
\<close>

definition EffSet_get :: "'v effset \<Rightarrow> nat \<Rightarrow> (string \<times> 'v option) list option" where
  "EffSet_get es index =
     (case array_get (entries es) index of
        None \<Rightarrow> None
      | Some entry \<Rightarrow>
          Some (fold (\<lambda>i obj. AList.update (fields_dir es ! i) (array_get entry i) obj)
                  [0..<length (fields_dir es)] []))"

text \<open>The body of the loop of \<^verbatim>\<open>set\<close>: \<^verbatim>\<open>let entry = []\<close> stands inside the loop.\<close>

definition set_key :: "nat \<Rightarrow> string \<times> 'v option \<Rightarrow> 'v effset \<Rightarrow> 'v effset" where
  "set_key index kv es =
     (let fs' = (if \<not> key_in_array (fst kv) (fields_dir es) then fields_dir es @ [fst kv]
                 else fields_dir es);
          entry = array_set [] (indexOf fs' (fst kv)) (snd kv)
      in es\<lparr> fields_dir := fs', entries := array_set (entries es) (int index) (Some entry) \<rparr>)"

definition EffSet_set :: "'v effset \<Rightarrow> nat \<Rightarrow> (string \<times> 'v option) list \<Rightarrow> 'v effset" where
  "EffSet_set es index elem = fold (set_key index) elem es"

section \<open>Definitions used to state the properties\<close>

text \<open>
  The due condition of the flush scheduler in the words of the specification, for
  \<open>w\<close> writes, \<open>e\<close> milliseconds since \<open>lastWrite\<close> and the forced flag: \<open>w \<ge> 100\<close>
  and \<open>e\<close> at least \<open>w/100\<close> minutes; or \<open>w \<ge> 1000\<close> and \<open>e\<close> at least one second; or
  \<open>w < 100\<close> and \<open>e\<close> at least two minutes; or forced.
\<close>

definition spec_flush_due :: "nat \<Rightarrow> int \<Rightarrow> bool \<Rightarrow> bool" where
  "spec_flush_due w e forced =
     ((w \<ge> 100 \<and> e * 100 \<ge> int w * (60 * 1000))
      \<or> (w \<ge> 1000 \<and> e \<ge> 1000)
      \<or> (w < 100 \<and> e \<ge> 2 * (60 * 1000))
      \<or> forced)"

text \<open>
  Concrete inputs: a database opened on an empty directory, in which one record has
  been inserted into table \<^verbatim>\<open>t\<close>; the file system of that directory before any flush.
\<close>

definition st_inserted :: "string database" where
  "st_inserted =
     snd (Database_insert 0 1000 1000 (Database_new 0) ''t''
            \<lparr> oid = 0, item_id = None, body = ''A'' \<rparr>)"

definition fs_new :: filesys where
  "fs_new = \<lparr> stamp = False, tabledirs = None \<rparr>"

definition st_scheduled :: "string database" where
  "st_scheduled = (Database_new 0)\<lparr> writes := 150, lastWrite := Some 0 \<rparr>"

text \<open>
  The number of buffered records with an id above \<open>start\<close>: what the specification
  says \<^verbatim>\<open>truncate\<close> returns.
\<close>

definition buffered_above :: "'a table \<Rightarrow> int \<Rightarrow> nat" where
  "buffered_above tbl start =
     length (filter (\<lambda>item. js_gt (item_id item) (Some start)) (inserts tbl @ updates tbl))"

text \<open>The table of \<open>st_inserted\<close>, and the database after two more inserts.\<close>

definition tbl_inserted :: "string table" where
  "tbl_inserted = \<lparr> lastId = 1, beforeLastId = Some 0, items = [],
     inserts = [\<lparr> oid = 0, item_id = Some 1, body = ''A'' \<rparr>], updates = [], removals = [],
     truncate_mark = - 1, cache = [] \<rparr>"

definition st_three :: "string database" where
  "st_three =
     snd (Database_insert 0 1002 1002
       (snd (Database_insert 0 1001 1001 st_inserted ''t''
               \<lparr> oid = 1, item_id = None, body = ''B'' \<rparr>))
       ''t'' \<lparr> oid = 2, item_id = None, body = ''C'' \<rparr>)"

text \<open>
  \<open>st_inserted\<close> after \<^verbatim>\<open>remove('t', 3)\<close> and \<^verbatim>\<open>remove('t', 2)\<close>, ids that are not among
  the buffered inserts.
\<close>

definition st_removals :: "string database" where
  "st_removals =
     snd (Database_remove 1002 1002
       (snd (Database_remove 1001 1001 st_inserted ''t'' (Some 3))) ''t'' (Some 2))"

text \<open>
  The \<open>lastId\<close> startup gives a table: the number on the first line of its index file,
  0 when the file has no line.
\<close>

definition recovered_lastId :: "table_files \<Rightarrow> int" where
  "recovered_lastId files =
     (case indexfile files of Some (next # _) \<Rightarrow> int (num1 next) | _ \<Rightarrow> 0)"

text \<open>
  A database directory with the stamp file and one table directory whose index file is
  empty.
\<close>

definition fs_empty_index :: filesys where
  "fs_empty_index =
     \<lparr> stamp = True, tabledirs = Some [(''t'', \<lparr> indexfile = Some [], tablefile = True \<rparr>)] \<rparr>"

text \<open>
  A field name that is no property name of any array: not the numeral of an index, not
  \<^verbatim>\<open>length\<close>, not an inherited name.
\<close>

definition ordinary_key :: "string \<Rightarrow> bool" where
  "ordinary_key k =
     (k \<notin> range show_nat \<and> k \<noteq> ''length'' \<and> k \<notin> set array_prototype_names)"

subsection \<open>Sequences of calls\<close>

text \<open>
  The calls that change a database once it is open: the methods of the class that
  assign to its state, with the readings of the environment each makes, and the firing
  of the flush timer, whose callback clears the handle and runs the scheduler. \<^verbatim>\<open>get\<close>
  and \<^verbatim>\<open>getAll\<close> assign nothing.
\<close>

datatype 'a call =
    Insert int int int string "'a item"
  | Update int int string "'a item"
  | Remove int int string "int option"
  | Truncate int int string "int option"
  | CreateTable string
  | Initialize int
  | PersistData
  | AsyncPersistData int
  | Timer int

fun perform :: "'a ext \<Rightarrow> filesys \<Rightarrow> 'a call \<Rightarrow> 'a database \<Rightarrow> 'a database" where
  "perform ext fs (Insert freemem now dateNow table data) st =
     snd (Database_insert freemem now dateNow st table data)"
| "perform ext fs (Update now dateNow table data) st =
     snd (Database_update ext fs now dateNow st table data)"
| "perform ext fs (Remove now dateNow table id') st =
     snd (Database_remove now dateNow st table id')"
| "perform ext fs (Truncate now dateNow table start') st =
     snd (Database_truncate now dateNow st table start')"
| "perform ext fs (CreateTable table) st = Database_createTable table st"
| "perform ext fs (Initialize totalmem) st = snd (Database_initialize_on totalmem fs st)"
| "perform ext fs PersistData st = Database_persistData st"
| "perform ext fs (AsyncPersistData dateNow) st = snd (Database_asyncPersistData dateNow st)"
| "perform ext fs (Timer dateNow) st =
     snd (Database_asyncPersistData dateNow (st\<lparr> lastPersistDataTimeout := None \<rparr>))"






text \<open>
  Concrete inputs: library calls that hand out zeroed buffers and unpack a number from
  them; a sequence of calls on two tables; \<open>st_inserted\<close> after
  \<^verbatim>\<open>truncate('t', 9007199254740992)\<close>.
\<close>

definition ext_zero :: "string ext" where
  "ext_zero = \<lparr> new_Buffer = (\<lambda>n. replicate n 0), allocUnsafe = (\<lambda>n. replicate n 0),
                 unpack = (\<lambda>buf. Prim) \<rparr>"



text \<open>No table holds anything in its \<open>items\<close> array.\<close>

definition no_items :: "'a database \<Rightarrow> bool" where
  "no_items st = list_all (\<lambda>(n, tbl). items tbl = []) (tables st)"

section \<open>Properties\<close>

subsection \<open>Arithmetic below \<open>2^53\<close>\<close>

text \<open>
  Up to \<open>2^53\<close> every integer is a number, so adding 1 is exact below it; at \<open>2^53\<close>
  the sum lies halfway between two numbers and is rounded back to \<open>2^53\<close>.
\<close>

lemma js_round_small: "\<bar>m\<bar> \<le> 9007199254740992 \<Longrightarrow> js_round m = m"
proof (cases "\<bar>m\<bar> < 9007199254740992")
  case True
  then have "ulp53 1 \<bar>m\<bar> = 1" by (simp add: ulp53.simps)
  then show ?thesis by (simp add: js_round_def Let_def mult_sgn_abs)
next
  case False
  assume "\<bar>m\<bar> \<le> 9007199254740992"
  with False have a: "\<bar>m\<bar> = 9007199254740992" by simp
  then have "ulp53 1 \<bar>m\<bar> = 2" by (simp add: ulp53.simps [of 1] ulp53.simps [of 2])
  with a show ?thesis by (cases "m < 0") (simp_all add: js_round_def Let_def)
qed

lemma js_inc_safe: "\<bar>n\<bar> < 9007199254740992 \<Longrightarrow> js_inc n = n + 1"
  unfolding js_inc_def by (rule js_round_small) simp

lemma js_succ_safe: "w < 9007199254740992 \<Longrightarrow> js_succ w = w + 1"
  by (simp add: js_succ_def js_inc_safe)

lemma js_inc_limit: "js_inc 9007199254740992 = 9007199254740992"
  by (simp add: js_inc_def js_round_def ulp53.simps [of 1] ulp53.simps [of 2] Let_def)

lemmas db_defs = Database_insert_def Database_new_def Database_asyncPersistData_def
  Database_persistData_def Database_remove_def Database_truncate_def Database_get_def
  Database_update_def Database_createTable_def new_table_def memory_floor_def Let_def
  splice1_def number_id_def index_lines_def tablefile_exists_def tables_get_def
  inherited_member_def table_member_def object_prototype_names_def sync_def sync_table_def
  refresh_def js_inc_safe js_succ_safe js_inc_limit

lemmas effset_defs = EffSet_get_def EffSet_set_def set_key_def EffSet_push_def EffSet_new_def
  push_key_def key_in_array_def array_prototype_names_def indexOf_def array_set_def
  array_get_def show_nat.simps

subsection \<open>What the calls leave of the tables\<close>

lemma tables_of_asyncPersistData:
  "tables (snd (Database_asyncPersistData dateNow st)) = tables st"
  by (simp add: Database_asyncPersistData_def Database_persistData_def Let_def)






lemma inherited_not_Table: "inherited_member st n \<noteq> Table x"
  by (auto simp: inherited_member_def table_member_def split: option.splits tref.splits)

lemma tables_get_Table: "(tables_get st n = Table x) = (map_of (tables st) n = Some x)"
  by (auto simp: tables_get_def inherited_not_Table split: option.splits)



text \<open>
  The store holds the caller's object: inserted a second time, the object is in
  \<open>inserts\<close> twice and shows the second id in both places.
\<close>

lemma insert_same_object_twice:
  "map_option inserts
     (map_of (tables (snd (Database_insert 0 1001 1001 st_inserted ''t''
                             \<lparr> oid = 0, item_id = Some 1, body = ''A'' \<rparr>))) ''t'')
     = Some [\<lparr> oid = 0, item_id = Some 2, body = ''A'' \<rparr>,
             \<lparr> oid = 0, item_id = Some 2, body = ''A'' \<rparr>]"
  unfolding st_inserted_def by (simp add: db_defs)

subsection \<open>The read path over the buffers\<close>

text \<open>
  The test \<^verbatim>\<open>removals.find(item => item.id === id)\<close> of \<^verbatim>\<open>get\<close> reads \<^verbatim>\<open>.id\<close> of the
  numbers in \<open>removals\<close>: it passes for no id.
\<close>

lemma tombstone_never_matches:
  "id' \<noteq> None \<Longrightarrow> \<not> truthy_number (find (\<lambda>item. number_id item = id') rs)"
  by (induction rs) (auto simp: number_id_def)

text \<open>
  A record that is in \<open>updates\<close> or \<open>inserts\<close> under the id asked for is never returned:
  \<^verbatim>\<open>get\<close> gives \<^verbatim>\<open>undefined\<close>.
\<close>

lemma get_buffered_undefined:
  assumes "map_of (tables st) table = Some tbl"
    and "id' \<noteq> None" and "id' \<noteq> Some 0"
    and "\<exists>r \<in> set (updates tbl @ inserts tbl). item_id r = id'"
  shows "Database_get ext fs st table id' = Inr Undefined"
proof -
  from assms(4) have "find (\<lambda>item. item_id item = id') (updates tbl) \<noteq> None
      \<or> find (\<lambda>item. item_id item = id') (inserts tbl) \<noteq> None"
    by (auto simp: find_None_iff)
  with assms(1-3) show ?thesis
    by (auto simp: Database_get_def Let_def)
qed

text \<open>
  \<^bold>\<open>C1\<close> (read-your-writes): \<^verbatim>\<open>get(t, id)\<close> right after \<^verbatim>\<open>insert(t, r)\<close> assigned
  \<open>id\<close>, or right after \<^verbatim>\<open>update(t, r)\<close> with \<^verbatim>\<open>r.id = id\<close>, is to return the record just
  written. The code does not: in a database opened on an empty directory
  \<^verbatim>\<open>insert('t', {..})\<close> assigns id 1 and \<^verbatim>\<open>get('t', 1)\<close> then returns \<^verbatim>\<open>undefined\<close>;
  \<^verbatim>\<open>update('t', {id: 1, ..})\<close> returns \<^verbatim>\<open>undefined\<close> and so does the \<^verbatim>\<open>get\<close> after it.
  \<^verbatim>\<open>get\<close> finds the record in \<open>inserts\<close> and then runs off its end, its \<^verbatim>\<open>return item\<close>
  being inside the block for the record not found in the buffers.
\<close>

theorem C1_get_after_write_undefined:
  "fst (Database_insert 0 1000 1000 (Database_new 0) ''t''
          \<lparr> oid = 0, item_id = None, body = ''A'' \<rparr>)
     = Inr 1
   \<and> Database_get ext fs st_inserted ''t'' (Some 1) = Inr Undefined
   \<and> fst (Database_update ext fs 1001 1001 st_inserted ''t''
             \<lparr> oid = 1, item_id = Some 1, body = ''B'' \<rparr>)
       = Inr Undefined
   \<and> Database_get ext fs
        (snd (Database_update ext fs 1001 1001 st_inserted ''t''
                \<lparr> oid = 1, item_id = Some 1, body = ''B'' \<rparr>)) ''t'' (Some 1)
       = Inr Undefined"
  unfolding st_inserted_def by (simp add: db_defs)

text \<open>
  \<^bold>\<open>C2\<close> (tombstone): \<^verbatim>\<open>get(t, id)\<close> right after \<^verbatim>\<open>remove(t, id)\<close>, before any flush,
  is to return not-found, as a value and not as an error. The code does not: in a
  database opened on an empty directory, after \<^verbatim>\<open>insert('t', {..})\<close> (id 1),
  \<^verbatim>\<open>remove('t', 1)\<close> followed by \<^verbatim>\<open>get('t', 1)\<close> throws, and so does \<^verbatim>\<open>remove('t', 7)\<close>
  followed by \<^verbatim>\<open>get('t', 7)\<close>, although 7 is then in \<open>removals\<close>: the tombstone test
  passes for no id (\<open>tombstone_never_matches\<close>), \<^verbatim>\<open>get\<close> goes on to the index file, and no
  index file exists before the first flush.
\<close>

theorem C2_get_after_remove_throws:
  "Database_get ext fs_new (snd (Database_remove 1001 1001 st_inserted ''t'' (Some 1)))
       ''t'' (Some 1) = Inl IOError
   \<and> map_option removals
        (map_of (tables (snd (Database_remove 1001 1001 st_inserted ''t'' (Some 7)))) ''t'')
       = Some [7]
   \<and> Database_get ext fs_new (snd (Database_remove 1001 1001 st_inserted ''t'' (Some 7)))
       ''t'' (Some 7) = Inl IOError"
  unfolding st_inserted_def fs_new_def by (simp add: db_defs)

subsection \<open>Truncation and the validation of ids\<close>

text \<open>
  The \<open>items\<close> array of a table is empty when the table is created, and no call puts
  anything into it.
\<close>

lemma list_all_update:
  "list_all P xs \<Longrightarrow> P (k, v) \<Longrightarrow> list_all P (AList.update k v xs)"
  by (induction xs) auto

lemma list_all_map_entry:
  "list_all P xs \<Longrightarrow> (\<And>v. P (k, v) \<Longrightarrow> P (k, f v)) \<Longrightarrow> list_all P (AList.map_entry k f xs)"
  by (induction xs) auto

lemma no_items_lookup:
  "no_items st \<Longrightarrow> map_of (tables st) t = Some tbl \<Longrightarrow> items tbl = []"
  unfolding no_items_def by (auto simp: list_all_iff dest: map_of_SomeD)

lemma no_items_update:
  "no_items st \<Longrightarrow> items tbl = [] \<Longrightarrow> no_items (st\<lparr> tables := AList.update t tbl (tables st) \<rparr>)"
  by (simp add: no_items_def list_all_update)

lemma no_items_sync: "no_items st \<Longrightarrow> no_items (sync obj st)"
  by (auto simp: no_items_def sync_def sync_table_def list_all_iff)

lemma no_items_scheduler:
  "no_items st \<Longrightarrow> no_items (snd (Database_asyncPersistData dateNow st))"
  by (simp add: no_items_def tables_of_asyncPersistData)

lemma no_items_createTable: "no_items st \<Longrightarrow> no_items (Database_createTable t st)"
  by (simp add: no_items_def Database_createTable_def list_all_update new_table_def)

lemma no_items_fields [simp]:
  "no_items (st\<lparr> lastWrite := a \<rparr>) = no_items st"
  "no_items (st\<lparr> writes := b \<rparr>) = no_items st"
  "no_items (st\<lparr> worthPersistingNow := c \<rparr>) = no_items st"
  "no_items (st\<lparr> lastPersistDataTimeout := d \<rparr>) = no_items st"
  "no_items (st\<lparr> exists := e \<rparr>) = no_items st"
  "no_items (st\<lparr> leastfree := f \<rparr>) = no_items st"
  by (simp_all add: no_items_def)

lemma no_items_insert:
  assumes "no_items st"
  shows "no_items (snd (Database_insert freemem now dateNow st t data))"
proof (cases "js_succ (writes st) mod 250000 = 0 \<and> freemem < leastfree st")
  case True
  with assms show ?thesis by (simp add: Database_insert_def)
next
  case np: False
  define st0 where "st0 = (if \<not> truthy (tables_get st t) then Database_createTable t st else st)"
  from assms have st0: "no_items st0" by (simp add: st0_def no_items_createTable)
  show ?thesis
  proof (cases "tables_get st0 t")
    case (Table tbl0)
    then have "map_of (tables st0) t = Some tbl0" by (simp add: tables_get_Table)
    with st0 have "items tbl0 = []" by (rule no_items_lookup)
    then have "no_items ((sync d st0)\<lparr> tables := AList.update t
        ((sync_table d tbl0)\<lparr> beforeLastId := b, lastId := l,
           inserts := inserts (sync_table d tbl0) @ [d] \<rparr>) (tables (sync d st0)) \<rparr>)" for d b l
      by (intro no_items_update no_items_sync st0) (simp add: sync_table_def)
    then show ?thesis
      unfolding Database_insert_def if_not_P [OF np] st0_def [symmetric]
      by (simp add: Table Let_def no_items_def tables_of_asyncPersistData
            split: option.splits)
  qed (simp_all add: Database_insert_def np st0_def [symmetric] st0 no_items_sync Let_def)
qed

lemma no_items_remove:
  assumes "no_items st"
  shows "no_items (snd (Database_remove now dateNow st t id'))"
proof (cases "\<exists>i tbl. id' = Some i \<and> i \<noteq> 0 \<and> map_of (tables st) t = Some tbl")
  case True
  then obtain i tbl where i: "id' = Some i" "i \<noteq> 0" and tbl: "map_of (tables st) t = Some tbl"
    by blast
  from assms tbl have "items tbl = []" by (rule no_items_lookup)
  then have "no_items (st\<lparr> tables := AList.update t (tbl\<lparr> inserts := a \<rparr>) (tables st) \<rparr>)"
    and "no_items (st\<lparr> tables := AList.update t (tbl\<lparr> removals := b \<rparr>) (tables st) \<rparr>)"
    for a b
    using assms by (simp_all add: no_items_update)
  then show ?thesis
    by (simp add: Database_remove_def i tbl Let_def no_items_def tables_of_asyncPersistData)
next
  case False
  with assms show ?thesis
    by (auto simp: Database_remove_def split: option.splits)
qed

lemma no_items_truncate:
  assumes "no_items st"
  shows "no_items (snd (Database_truncate now dateNow st t start'))"
proof (cases "map_of (tables st) t")
  case None
  with assms show ?thesis by (simp add: Database_truncate_def)
next
  case (Some tbl)
  with assms have "items tbl = []" by (rule no_items_lookup)
  then have "no_items (st\<lparr> tables :=
      AList.update t (tbl\<lparr> lastId := a, truncate_mark := b \<rparr>) (tables st) \<rparr>)" for a b
    using assms by (simp add: no_items_update)
  then show ?thesis
    by (simp add: Database_truncate_def Some Let_def no_items_def tables_of_asyncPersistData)
qed

lemma no_items_update_call:
  assumes "no_items st"
  shows "no_items (snd (Database_update ext fs now dateNow st t data))"
proof (cases "item_id data \<noteq> None \<and> item_id data \<noteq> Some 0 \<and> map_of (tables st) t \<noteq> None")
  case True
  then obtain tbl0 where tbl0: "map_of (tables st) t = Some tbl0" by auto
  with assms have "items tbl0 = []" by (rule no_items_lookup)
  then have "items (sync_table data tbl0) = []" by (simp add: sync_table_def)
  then have "no_items ((sync data st)\<lparr> tables :=
        AList.update t ((sync_table data tbl0)\<lparr> inserts := a \<rparr>) (tables (sync data st)) \<rparr>)"
    and "no_items ((sync data st)\<lparr> tables :=
        AList.update t ((sync_table data tbl0)\<lparr> updates := b \<rparr>) (tables (sync data st)) \<rparr>)"
    for a b
    using assms by (simp_all add: no_items_update no_items_sync)
  moreover from True have v: "\<not> (item_id data = None \<or> item_id data = Some 0)" by simp
  ultimately show ?thesis
    unfolding Database_update_def if_not_P [OF v]
    by (simp add: tbl0 Let_def no_items_def tables_of_asyncPersistData)
next
  case False
  with assms show ?thesis
    by (auto simp: Database_update_def split: option.splits)
qed

lemma no_items_initialize_tables:
  "no_items st \<Longrightarrow> no_items (snd (initialize_tables ds st))"
proof (induction ds arbitrary: st)
  case Nil
  then show ?case by simp
next
  case (Cons d ds)
  obtain n f where d: "d = (n, f)" by (cases d)
  from Cons.prems have c: "no_items (Database_createTable n st)"
    by (rule no_items_createTable)
  show ?case
  proof (cases "indexfile f")
    case None
    with c show ?thesis by (simp add: d Let_def)
  next
    case (Some ls)
    from c have "no_items ((Database_createTable n st)\<lparr> tables :=
        AList.map_entry n (\<lambda>t. t\<lparr> lastId := l \<rparr>) (tables (Database_createTable n st)) \<rparr>)" for l
      by (auto simp: no_items_def intro: list_all_map_entry)
    from Cons.IH [OF this] Some show ?thesis by (simp add: d Let_def)
  qed
qed

lemma no_items_initialize_on:
  "no_items st \<Longrightarrow> no_items (snd (Database_initialize_on totalmem fs st))"
  by (auto simp: Database_initialize_on_def Let_def no_items_initialize_tables
        split: option.splits)

lemma no_items_new: "no_items (Database_new totalmem)"
  by (simp add: no_items_def Database_new_def)

lemma no_items_perform: "no_items st \<Longrightarrow> no_items (perform ext fs c st)"
  by (cases c)
     (simp_all add: no_items_insert no_items_update_call no_items_remove no_items_truncate
        no_items_createTable no_items_initialize_on no_items_scheduler
        Database_persistData_def)

lemma no_items_reachable: "no_items (fold (perform ext fs) cs (Database_new totalmem))"
proof -
  have "no_items st \<Longrightarrow> no_items (fold (perform ext fs) cs st)" for st :: "'a database"
    by (induction cs arbitrary: st) (simp_all add: no_items_perform)
  then show ?thesis by (simp add: no_items_new)
qed

text \<open>
  So \<^verbatim>\<open>truncate\<close> returns -1 on every table of every database a new one can become.
\<close>

lemma truncate_returns_minus_one:
  assumes "map_of (tables (fold (perform ext fs) cs (Database_new totalmem))) t = Some tbl"
  shows "fst (Database_truncate now dateNow (fold (perform ext fs) cs (Database_new totalmem))
                t start') = Inr (- 1)"
proof -
  from no_items_reachable assms have "items tbl = []" by (rule no_items_lookup)
  with assms show ?thesis by (simp add: Database_truncate_def Let_def)
qed

text \<open>
  What \<^verbatim>\<open>truncate\<close> does to an existing table: marker and \<open>lastId\<close> are set to \<open>start\<close>
  (0 when omitted); the forced flag it sets makes its own scheduler call start the
  flush, whatever the clock says, and is false again when \<^verbatim>\<open>truncate\<close> returns.
\<close>

lemma forced_flag_starts_flush:
  "worthPersistingNow st \<Longrightarrow> fst (Database_asyncPersistData dateNow st) = True"
  by (simp add: Database_asyncPersistData_def Let_def)

lemma truncate_marks_and_resets:
  assumes "map_of (tables st) table = Some tbl"
  shows "map_option truncate_mark
            (map_of (tables (snd (Database_truncate now dateNow st table start'))) table)
           = Some (case start' of None \<Rightarrow> 0 | Some s \<Rightarrow> s)"
    and "map_option lastId
            (map_of (tables (snd (Database_truncate now dateNow st table start'))) table)
           = Some (case start' of None \<Rightarrow> 0 | Some s \<Rightarrow> s)"
    and "\<not> worthPersistingNow (snd (Database_truncate now dateNow st table start'))"
  using assms
  by (simp_all add: Database_truncate_def Database_asyncPersistData_def
        Database_persistData_def Let_def update_conv')

text \<open>
  \<^bold>\<open>C3\<close>: \<^verbatim>\<open>truncate(t, start)\<close> is to set the truncate marker and \<open>lastId\<close> to \<open>start\<close>,
  set the forced flag, and return the number of buffered records with an id above
  \<open>start\<close>. The code does the first three and not the last: with the records 1, 2 and 3
  buffered in \<open>inserts\<close>, \<^verbatim>\<open>truncate('t', 1)\<close> returns -1, where two buffered records have
  an id above 1. The value returned is the result of a search through the table's
  \<open>items\<close> array, which nothing fills; the buffers are not looked at. The forced flag is
  false again when the call returns, its scheduler call having started the flush, and
  on a table that was never created the call throws.
\<close>

theorem C3_truncate_returns_no_count:
  "fst (Database_truncate 2000 2000 st_three ''t'' (Some 1)) = Inr (- 1)
   \<and> map_option (\<lambda>tbl. buffered_above tbl 1) (map_of (tables st_three) ''t'') = Some 2
   \<and> worthPersistingNow (snd (Database_truncate 2000 2000 st_three ''t'' (Some 1))) = False
   \<and> fst (Database_truncate 2000 2000 (Database_new 0 :: string database) ''t'' (Some 1))
       = Inl TypeError"
  unfolding st_three_def st_inserted_def by (simp add: db_defs buffered_above_def)

text \<open>
  \<^bold>\<open>C5\<close> as stated has \<^verbatim>\<open>truncate\<close> fail with InvalidId when its threshold is missing
  or not a positive integer, and change nothing. It does not: \<^verbatim>\<open>truncate('t')\<close>, the
  threshold omitted, returns -1 and sets the \<open>lastId\<close> of the table from 1 to 0. Nor is
  a negative id refused by the other operations, whose test lets every number but 0
  through although the message of their error asks for an id of at least 1:
  \<^verbatim>\<open>remove('t', -1)\<close> succeeds and queues -1 for removal.
\<close>

theorem C5_truncate_accepts_missing_start:
  "fst (Database_truncate 2000 2000 st_inserted ''t'' None) = Inr (- 1)
   \<and> map_option lastId (map_of (tables st_inserted) ''t'') = Some 1
   \<and> map_option lastId
        (map_of (tables (snd (Database_truncate 2000 2000 st_inserted ''t'' None))) ''t'')
       = Some 0
   \<and> fst (Database_remove 2000 2000 st_inserted ''t'' (Some (- 1))) = Inr True
   \<and> map_option removals
        (map_of (tables (snd (Database_remove 2000 2000 st_inserted ''t'' (Some (- 1))))) ''t'')
       = Some [- 1]"
  unfolding st_inserted_def by (simp add: db_defs)

text \<open>
  \<^bold>\<open>C5\<close>, amended: \<^verbatim>\<open>get\<close>, \<^verbatim>\<open>remove\<close> and \<^verbatim>\<open>update\<close> called with an id that is
  missing or 0 fail at once with InvalidId and leave the state as it was. \<^verbatim>\<open>truncate\<close>
  checks nothing: an omitted threshold is the threshold 0, and with a threshold that
  is missing or 0 the call succeeds on every existing table.
\<close>

theorem C5_missing_or_zero_id_rejected:
  assumes "id' = None \<or> id' = Some 0"
  shows "Database_get ext fs st table id' = Inl InvalidId
       \<and> Database_remove now dateNow st table id' = (Inl InvalidId, st)
       \<and> Database_update ext fs now dateNow st table (data\<lparr> item_id := id' \<rparr>)
           = (Inl InvalidId, st)
       \<and> Database_truncate now dateNow st table None
           = Database_truncate now dateNow st table (Some 0)
       \<and> (map_of (tables st) table \<noteq> None
            \<longrightarrow> (\<exists>i. fst (Database_truncate now dateNow st table id') = Inr i))"
  using assms
  by (auto simp add: Database_get_def Database_remove_def Database_update_def
        Database_truncate_def Let_def)

theorem C5_missing_or_zero_id_rejected_witness:
  "Database_get ext_zero fs_new st_inserted ''t'' (Some 0) = Inl InvalidId
   \<and> Database_remove 2000 2000 st_inserted ''t'' (Some 0) = (Inl InvalidId, st_inserted)
   \<and> Database_update ext_zero fs_new 2000 2000 st_inserted ''t''
        \<lparr> oid = 1, item_id = Some 0, body = ''B'' \<rparr>
       = (Inl InvalidId, st_inserted)
   \<and> map_of (tables st_inserted) ''t'' = Some tbl_inserted
   \<and> fst (Database_truncate 2000 2000 st_inserted ''t'' (Some 0)) = Inr (- 1)"
  using C5_missing_or_zero_id_rejected [of "Some 0" ext_zero fs_new st_inserted "''t''" 2000 2000
          "\<lparr> oid = 1, item_id = Some 0, body = ''B'' \<rparr>"]
  unfolding st_inserted_def tbl_inserted_def by (simp add: db_defs)

subsection \<open>The ids \<^verbatim>\<open>insert\<close> assigns\<close>


















subsection \<open>The flush scheduler\<close>

lemma normal_run_due:
  "(lw + 1000 * 60 * int w div 100 \<le> dateNow) = (int w * (60 * 1000) \<le> (dateNow - lw) * 100)"
proof -
  have "1000 * 60 * int w div 100 = 600 * int w" by simp
  then show ?thesis by simp arith
qed

text \<open>
  \<^bold>\<open>C6\<close>: with \<open>w\<close> writes and \<open>e\<close> milliseconds since \<open>lastWrite\<close>, the scheduler
  starts a flush exactly when the due condition of the specification holds, and
  otherwise arms a timer of one second when \<open>w > 1000\<close> and of sixty seconds when not.
  When it starts the flush, the state it leaves is the one \<^verbatim>\<open>persistData\<close> leaves, with
  the forced flag cleared; when it does not, only the timer changes.
\<close>

theorem C6_scheduler_due_or_rearm:
  assumes "lastWrite st = Some lw"
  shows "fst (Database_asyncPersistData dateNow st)
           = spec_flush_due (writes st) (dateNow - lw) (worthPersistingNow st)
       \<and> (if spec_flush_due (writes st) (dateNow - lw) (worthPersistingNow st)
          then snd (Database_asyncPersistData dateNow st)
                 = (Database_persistData st)\<lparr> worthPersistingNow := False \<rparr>
          else snd (Database_asyncPersistData dateNow st)
                 = st\<lparr> lastPersistDataTimeout :=
                        Some \<lparr> delay = (if writes st > 1000 then 1000 else 60000),
                               cleared = False \<rparr> \<rparr>)"
  using assms
  by (auto simp add: Database_asyncPersistData_def spec_flush_due_def Let_def normal_run_due)

text \<open>
  The theorem at 150 writes, the last of them at time 0: at 90000 ms (150/100 minutes)
  the flush starts, one millisecond earlier the sixty-second timer is armed.
\<close>

theorem C6_scheduler_due_or_rearm_witness:
  "lastWrite st_scheduled = Some 0
   \<and> fst (Database_asyncPersistData 90000 st_scheduled) = True
   \<and> fst (Database_asyncPersistData 89999 st_scheduled) = False
   \<and> lastPersistDataTimeout (snd (Database_asyncPersistData 89999 st_scheduled))
       = Some \<lparr> delay = 60000, cleared = False \<rparr>"
  using C6_scheduler_due_or_rearm [of st_scheduled 0 90000]
    C6_scheduler_due_or_rearm [of st_scheduled 0 89999]
  by (simp add: st_scheduled_def Database_new_def spec_flush_due_def)

subsection \<open>The flush\<close>

text \<open>
  \<^bold>\<open>C7\<close>: a flush is to take the pending removal ids in ascending order and to run
  one rewrite pass for each, which copies every record on disk but the one with that
  id. The code runs no pass. With the removals of 3 and of 2 pending in table \<^verbatim>\<open>t\<close>, the
  scheduler at time 200000, two minutes after the last write, starts the flush;
  \<^verbatim>\<open>persistData\<close> marks the database as existing, enters its loop and throws at the first
  read of \<^verbatim>\<open>table\<close>, a variable that is not bound, before the sort and before the first
  pass. The state the flush leaves is the state it found, marked as existing: the
  removals are pending as before, in the order of the calls, and \<open>writes\<close> is not
  reset.
\<close>

theorem C7_flush_runs_no_removal_pass:
  "map_option removals (map_of (tables st_removals) ''t'') = Some [3, 2]
   \<and> writes st_removals = 3
   \<and> fst (Database_asyncPersistData 200000 st_removals) = True
   \<and> snd (Database_asyncPersistData 200000 st_removals) = st_removals\<lparr> exists := True \<rparr>"
  unfolding st_removals_def st_inserted_def by (simp add: db_defs)

subsection \<open>Startup\<close>

lemma recover_tables_missing:
  "\<exists>(n, f) \<in> set ds. indexfile f = None \<Longrightarrow> recover_tables ds st = Inl IOError"
proof (induction ds arbitrary: st)
  case Nil
  then show ?case by simp
next
  case (Cons d ds)
  obtain n f where d: "d = (n, f)" by (cases d)
  show ?case
  proof (cases "indexfile f")
    case None
    then show ?thesis by (simp add: d Let_def)
  next
    case (Some ls)
    with Cons.prems d have "\<exists>(n, f) \<in> set ds. indexfile f = None" by auto
    from Cons.IH [OF this] Some show ?thesis by (simp add: d Let_def)
  qed
qed

lemma recover_tables_ok:
  assumes "\<forall>(n, f) \<in> set ds. indexfile f \<noteq> None" and "distinct (map fst ds)"
  shows "\<exists>st'. recover_tables ds st = Inr st'
           \<and> (\<forall>n. map_of (tables st') n
                  = (case map_of ds n of
                       None \<Rightarrow> map_of (tables st) n
                     | Some f \<Rightarrow> Some (new_table\<lparr> lastId := recovered_lastId f \<rparr>)))"
  using assms
proof (induction ds arbitrary: st)
  case Nil
  then show ?case by simp
next
  case (Cons d ds)
  obtain n f where d: "d = (n, f)" by (cases d)
  from Cons.prems d obtain ls where ls: "indexfile f = Some ls" by auto
  define st2 where "st2 = (Database_createTable n st)\<lparr> tables :=
      AList.map_entry n (\<lambda>t. t\<lparr> lastId := recovered_lastId f \<rparr>)
        (tables (Database_createTable n st)) \<rparr>"
  have step: "recover_tables (d # ds) st = recover_tables ds st2"
    by (simp add: d ls st2_def Let_def recovered_lastId_def split: list.splits)
  have tabs: "map_of (tables st2)
      = (map_of (tables st))(n \<mapsto> new_table\<lparr> lastId := recovered_lastId f \<rparr>)"
    by (simp add: st2_def Database_createTable_def map_of_map_entry update_conv')
  from Cons.prems have rest: "\<forall>(n, f) \<in> set ds. indexfile f \<noteq> None" "distinct (map fst ds)"
    by auto
  from Cons.IH [OF rest, of st2] obtain st' where
    r: "recover_tables ds st2 = Inr st'" and
    m: "\<And>m. map_of (tables st') m
           = (case map_of ds m of None \<Rightarrow> map_of (tables st2) m
              | Some f \<Rightarrow> Some (new_table\<lparr> lastId := recovered_lastId f \<rparr>))"
    by blast
  from Cons.prems d have fresh: "map_of ds n = None"
    by (auto simp: map_of_eq_None_iff)
  show ?case
  proof (intro exI conjI allI)
    show "recover_tables (d # ds) st = Inr st'" using step r by simp
  next
    fix m
    show "map_of (tables st') m
           = (case map_of (d # ds) m of None \<Rightarrow> map_of (tables st) m
              | Some f \<Rightarrow> Some (new_table\<lparr> lastId := recovered_lastId f \<rparr>))"
      using m [of m] fresh by (auto simp: d tabs split: option.splits)
  qed
qed

text \<open>
  \<^bold>\<open>C10\<close> as stated has startup fail on a table directory whose index file has no
  readable first line. It does not: with the stamp file present and the index file of
  table \<^verbatim>\<open>t\<close> empty, startup succeeds and \<^verbatim>\<open>t\<close> is the table \<^verbatim>\<open>createTable\<close> makes, empty
  and with \<open>lastId\<close> 0.
\<close>

theorem C10_empty_index_is_accepted:
  "(Database_initialize 0 fs_empty_index :: error + string database)
     = Inr ((Database_new 0)\<lparr> tables := [(''t'', new_table)], exists := True \<rparr>)"
  by (simp add: Database_initialize_def fs_empty_index_def Database_new_def
        Database_createTable_def new_table_def Let_def)

text \<open>
  \<^bold>\<open>C10\<close>, amended: at the startup of an existing database (stamp file present, the
  table directories listed under distinct names), if every table directory has an index
  file, startup succeeds, and every table whose index file has no line is the empty
  table with \<open>lastId\<close> 0; if some index file does not exist, startup fails.
\<close>

theorem C10_startup_recovery:
  assumes "stamp fs" and "tabledirs fs = Some ds" and "distinct (map fst ds)"
  shows "if \<forall>(n, f) \<in> set ds. indexfile f \<noteq> None
         then \<exists>st. (Database_initialize totalmem fs :: error + 'a database) = Inr st
                \<and> (\<forall>(n, f) \<in> set ds. indexfile f = Some []
                       \<longrightarrow> map_of (tables st) n = Some new_table)
         else (Database_initialize totalmem fs :: error + 'a database) = Inl IOError"
proof (cases "\<forall>(n, f) \<in> set ds. indexfile f \<noteq> None")
  case True
  from recover_tables_ok [OF True assms(3), of "(Database_new totalmem)\<lparr> exists := True \<rparr>"]
  obtain st' :: "'a database" where
    r: "recover_tables ds ((Database_new totalmem)\<lparr> exists := True \<rparr>) = Inr st'" and
    m: "\<And>n. map_of (tables st') n
           = (case map_of ds n of
                None \<Rightarrow> map_of (tables ((Database_new totalmem :: 'a database)\<lparr> exists := True \<rparr>)) n
              | Some f \<Rightarrow> Some (new_table\<lparr> lastId := recovered_lastId f \<rparr>))"
    by blast
  have "map_of (tables st') n = Some new_table"
    if "(n, f) \<in> set ds" and "indexfile f = Some []" for n f
  proof -
    from that(1) assms(3) have "map_of ds n = Some f" by simp
    with m [of n] that(2) show ?thesis
      by (simp add: recovered_lastId_def new_table_def)
  qed
  moreover have "(Database_initialize totalmem fs :: error + 'a database) = Inr st'"
    using assms(1,2) r by (simp add: Database_initialize_def Let_def)
  ultimately show ?thesis
    unfolding if_P [OF True] by blast
next
  case False
  then have "\<exists>(n, f) \<in> set ds. indexfile f = None" by auto
  from recover_tables_missing [OF this]
  have "(Database_initialize totalmem fs :: error + 'a database) = Inl IOError"
    using assms(1,2) by (simp add: Database_initialize_def Let_def)
  then show ?thesis
    unfolding if_not_P [OF False] .
qed

theorem C10_startup_recovery_witness:
  "stamp fs_empty_index
   \<and> tabledirs fs_empty_index = Some [(''t'', \<lparr> indexfile = Some [], tablefile = True \<rparr>)]
   \<and> distinct (map fst [(''t'', \<lparr> indexfile = Some [], tablefile = True \<rparr>)])
   \<and> (\<exists>st. (Database_initialize 0 fs_empty_index :: error + string database) = Inr st
          \<and> map_of (tables st) ''t'' = Some new_table)"
  using C10_startup_recovery [of fs_empty_index
          "[(''t'', \<lparr> indexfile = Some [], tablefile = True \<rparr>)]" 0]
  by (simp add: fs_empty_index_def)

text \<open>
  \<^verbatim>\<open>initialize\<close> called on the state the constructor has made is the startup above.
\<close>

lemma initialize_tables_recover:
  "recover_tables ds st
     = (case initialize_tables ds st of (None, st') \<Rightarrow> Inr st' | (Some e, st') \<Rightarrow> Inl e)"
  by (induction ds st rule: recover_tables.induct)
     (simp_all add: Let_def split: option.splits)

lemma initialize_on_new:
  "Database_initialize totalmem fs
     = (case Database_initialize_on totalmem fs (Database_new totalmem) of
          (None, st') \<Rightarrow> Inr st' | (Some e, st') \<Rightarrow> Inl e)"
  by (simp add: Database_initialize_def Database_initialize_on_def Let_def
        initialize_tables_recover Database_new_def split: option.splits)

subsection \<open>The row container\<close>

text \<open>
  What does hold: a record with ordinary field names, pushed into an empty container,
  is given back by \<^verbatim>\<open>get(0)\<close> as it was pushed.
\<close>

lemma ordinary_not_in_array: "ordinary_key k \<Longrightarrow> \<not> key_in_array k xs"
  by (auto simp: ordinary_key_def key_in_array_def)

lemma indexOf_append_fresh: "k \<notin> set fs \<Longrightarrow> indexOf (fs @ [k]) k = int (length fs)"
  unfolding indexOf_def
proof (induction fs)
  case Nil
  then show ?case by simp
next
  case (Cons a fs)
  then have "findIndex (\<lambda>y. y = k) (fs @ [k]) = int (length fs)" by simp
  with Cons.prems show ?case by (auto simp: Let_def)
qed

lemma fold_push_key_fresh:
  assumes "distinct (map fst elem)"
    and "\<forall>k \<in> fst ` set elem. ordinary_key k \<and> k \<notin> set fs"
    and "length entry = length fs"
  shows "fold push_key elem (fs, entry) = (fs @ map fst elem, entry @ map snd elem)"
  using assms
proof (induction elem arbitrary: fs entry)
  case Nil
  then show ?case by simp
next
  case (Cons kv elem)
  obtain k v where kv: "kv = (k, v)" by (cases kv)
  from Cons.prems kv have k: "ordinary_key k" "k \<notin> set fs" by auto
  have step: "push_key kv (fs, entry) = (fs @ [k], entry @ [v])"
    using k Cons.prems(3)
    by (simp add: push_key_def kv ordinary_not_in_array indexOf_append_fresh array_set_def
          Let_def)
  from Cons.prems kv have rest: "distinct (map fst elem)"
    "\<forall>k' \<in> fst ` set elem. ordinary_key k' \<and> k' \<notin> set (fs @ [k])"
    "length (entry @ [v]) = length (fs @ [k])"
    by auto
  from Cons.IH [OF rest] step show ?case by (simp add: kv)
qed

lemma update_append_fresh: "k \<notin> fst ` set xs \<Longrightarrow> AList.update k v xs = xs @ [(k, v)]"
  by (induction xs) auto

lemma rebuild_take:
  assumes "distinct (map fst elem)" and "n \<le> length elem"
  shows "fold (\<lambda>i obj. AList.update (map fst elem ! i) (array_get (map snd elem) i) obj)
           [0..<n] [] = take n elem"
  using assms(2)
proof (induction n)
  case 0
  then show ?case by simp
next
  case (Suc n)
  then have n: "n < length elem" by simp
  have "fst (elem ! n) \<notin> fst ` set (take n elem)"
  proof
    assume "fst (elem ! n) \<in> fst ` set (take n elem)"
    then obtain i where i: "i < n" "fst (elem ! i) = fst (elem ! n)"
      by (auto simp: in_set_conv_nth)
    with n have "map fst elem ! i = map fst elem ! n" "i < length (map fst elem)"
      "n < length (map fst elem)" "i \<noteq> n"
      by simp_all
    with assms(1) show False by (simp add: distinct_conv_nth)
  qed
  moreover from Suc.IH n
  have "fold (\<lambda>i obj. AList.update (map fst elem ! i) (array_get (map snd elem) i) obj)
          [0..<n] [] = take n elem"
    by simp
  ultimately show ?case using n
    by (simp add: array_get_def update_append_fresh take_Suc_conv_app_nth)
qed

lemma push_get_single:
  assumes "distinct (map fst elem)" and "\<forall>k \<in> fst ` set elem. ordinary_key k"
  shows "EffSet_get (EffSet_push EffSet_new elem) 0 = Some elem"
proof -
  from fold_push_key_fresh [of elem "[]" "[]"] assms
  have "fold push_key elem ([], []) = (map fst elem, map snd elem)" by simp
  moreover
  have "fold (\<lambda>i obj. AList.update (map fst elem ! i) (array_get (map snd elem) i) obj)
          [0..<length (map fst elem)] [] = elem"
    using rebuild_take [OF assms(1), of "length elem"] by simp
  ultimately show ?thesis
    by (simp add: EffSet_get_def EffSet_push_def EffSet_new_def array_get_def Let_def)
qed

text \<open>
  \<^bold>\<open>C8\<close>: \<^verbatim>\<open>push\<close> is to add to the directory only the names it does not hold yet, and
  \<^verbatim>\<open>get(i)\<close> is to give back the i-th pushed record. The code does not: after
  \<^verbatim>\<open>push({a: 1})\<close> and \<^verbatim>\<open>push({a: 2})\<close> the directory is \<^verbatim>\<open>['a', 'a']\<close>, and \<^verbatim>\<open>get(0)\<close> and
  \<^verbatim>\<open>get(1)\<close> are both \<^verbatim>\<open>{a: undefined}\<close>. The test \<^verbatim>\<open>key in this.fields\<close> asks whether
  \<^verbatim>\<open>'a'\<close> is an index or a property name of the array, not whether it is an element, so
  the name is added at every push; \<^verbatim>\<open>get\<close> then assigns the property once per
  occurrence, last from a slot that holds nothing.
\<close>

theorem C8_push_repeats_field_names:
  "EffSet_push (EffSet_push EffSet_new [(''a'', Some (1::nat))]) [(''a'', Some 2)]
     = \<lparr> fields_dir = [''a'', ''a''], entries = [Some [Some 1], Some [Some 2]] \<rparr>
   \<and> EffSet_get (EffSet_push (EffSet_push EffSet_new [(''a'', Some (1::nat))]) [(''a'', Some 2)]) 0
       = Some [(''a'', None)]
   \<and> EffSet_get (EffSet_push (EffSet_push EffSet_new [(''a'', Some (1::nat))]) [(''a'', Some 2)]) 1
       = Some [(''a'', None)]"
  by (simp add: effset_defs)

text \<open>
  \<^bold>\<open>C9\<close>: after \<^verbatim>\<open>set(i, r)\<close>, \<^verbatim>\<open>get(i)\<close> is to give back all fields of \<open>r\<close>, and the
  other indices are to stay as they were. The code does not: on an empty container
  \<^verbatim>\<open>set(0, {a: 1, b: 2})\<close> stores the entry \<^verbatim>\<open>[<hole>, 2]\<close> and \<^verbatim>\<open>get(0)\<close> is
  \<^verbatim>\<open>{a: undefined, b: 2}\<close>: the entry is created anew for every key of the record, so
  only the last key's value is kept. After \<^verbatim>\<open>push({a: 1})\<close>, \<^verbatim>\<open>set(1, {a: 2})\<close> adds \<^verbatim>\<open>'a'\<close>
  to the directory a second time and \<^verbatim>\<open>get(0)\<close> changes from \<^verbatim>\<open>{a: 1}\<close> to
  \<^verbatim>\<open>{a: undefined}\<close>.
\<close>

theorem C9_set_keeps_last_field_only:
  "EffSet_set EffSet_new 0 [(''a'', Some (1::nat)), (''b'', Some 2)]
     = \<lparr> fields_dir = [''a'', ''b''], entries = [Some [None, Some 2]] \<rparr>
   \<and> EffSet_get (EffSet_set EffSet_new 0 [(''a'', Some (1::nat)), (''b'', Some 2)]) 0
       = Some [(''a'', None), (''b'', Some 2)]
   \<and> EffSet_get (EffSet_push EffSet_new [(''a'', Some (1::nat))]) 0 = Some [(''a'', Some 1)]
   \<and> EffSet_get (EffSet_set (EffSet_push EffSet_new [(''a'', Some (1::nat))]) 1 [(''a'', Some 2)]) 0
       = Some [(''a'', None)]"
  by (simp add: effset_defs)

end

